theory Spec2Isabelle
  imports Complex_Main
begin

section \<open>JavaScript strings and numbers\<close>

text \<open>
  Strings are byte strings (UTF-8); the tests the code makes on them (emptiness, search for
  an ASCII pattern, concatenation) agree with those on UTF-16 code units. A JavaScript
  number is \<open>NaN\<close>, an infinity (\<open>True\<close> for the positive one) or a finite value. A field
  declared as a number holds \<open>null\<close> once it has been through JSON with a value that is not
  finite; \<open>Null_number\<close> stands for that.
\<close>

datatype number = NaN | Infinity bool | Num rat | Null_number

fun is_finite :: "number \<Rightarrow> bool" where
  "is_finite (Num r) = True"
| "is_finite x = False"

text \<open>\<^verbatim>\<open>x || 0\<close> on a number: \<open>NaN\<close>, zero and \<open>null\<close> are falsy.\<close>

definition num_or_zero :: "number \<Rightarrow> number" where
  "num_or_zero x = (if x = NaN \<or> x = Num 0 \<or> x = Null_number then Num 0 else x)"

text \<open>\<^verbatim>\<open>JSON.parse(JSON.stringify(x))\<close> on a number: \<open>NaN\<close> and the infinities are written
  as \<open>null\<close>.\<close>

definition json_number :: "number \<Rightarrow> number" where
  "json_number x = (if is_finite x then x else Null_number)"

text \<open>\<^verbatim>\<open>row[i]\<close>: \<open>undefined\<close> beyond the end of the array.\<close>

definition at_index :: "'a list \<Rightarrow> nat \<Rightarrow> 'a option" where
  "at_index xs i = (if i < length xs then Some (xs ! i) else None)"

text \<open>\<^verbatim>\<open>row[i] || d\<close>: \<open>undefined\<close> and the empty string are falsy.\<close>

definition cell_or :: "string list \<Rightarrow> nat \<Rightarrow> string \<Rightarrow> string" where
  "cell_or row i d = (case at_index row i of None \<Rightarrow> d | Some s \<Rightarrow> if s = [] then d else s)"

text \<open>\<^verbatim>\<open>String(n)\<close> for a non-negative integer: its decimal digits (\<open>digit_char\<close> is
  only applied to numbers below 10).\<close>

definition digit_char :: "nat \<Rightarrow> char" where
  "digit_char d = ''0123456789'' ! d"

fun String_of :: "nat \<Rightarrow> string" where
  "String_of n = (if n < 10 then [digit_char n] else String_of (n div 10) @ [digit_char (n mod 10)])"

declare String_of.simps [simp del]

text \<open>\<^verbatim>\<open>s.padStart(w, '0')\<close>.\<close>

definition padStart :: "string \<Rightarrow> nat \<Rightarrow> string" where
  "padStart s w = replicate (w - length s) (CHR ''0'') @ s"

text \<open>\<^verbatim>\<open>s.includes(p)\<close>.\<close>

fun startsWith :: "string \<Rightarrow> string \<Rightarrow> bool" where
  "startsWith s [] = True"
| "startsWith [] (p # ps) = False"
| "startsWith (c # cs) (p # ps) = (c = p \<and> startsWith cs ps)"

fun includes_str :: "string \<Rightarrow> string \<Rightarrow> bool" where
  "includes_str [] p = (p = [])"
| "includes_str (c # cs) p = (startsWith (c # cs) p \<or> includes_str cs p)"

text \<open>\<^verbatim>\<open>xs.findIndex(p)\<close>, with \<open>None\<close> for \<open>-1\<close>.\<close>

fun findIndex :: "('a \<Rightarrow> bool) \<Rightarrow> 'a list \<Rightarrow> nat option" where
  "findIndex p [] = None"
| "findIndex p (x # xs) = (if p x then Some 0 else map_option Suc (findIndex p xs))"

section \<open>Customer records (types/customer.ts)\<close>

datatype status = Active | Inactive

record CustomerData =
  cust_id :: string
  name :: string
  furigana :: "string option"
  petName :: string
  email :: string
  phone :: string
  address :: string
  petType :: string
  breed :: string
  age :: number
  weight :: number
  imageUrl :: "string option"
  notes_c :: string
  createdAt :: string
  lastVisit :: "string option"
  status :: status

text \<open>
  \<^verbatim>\<open>JSON.parse(JSON.stringify(customer))\<close>: the strings come back as they were, an absent
  optional field stays absent, and the two numbers go through \<open>json_number\<close>.
\<close>

definition json_image :: "CustomerData \<Rightarrow> CustomerData" where
  "json_image customer =
     customer\<lparr>age := json_number (age customer), weight := json_number (weight customer)\<rparr>"

section \<open>The JavaScript runtime the parser calls\<close>

text \<open>
  \<open>parseInt\<close> and \<open>parseFloat\<close> are the built-in functions; \<open>today\<close> is
  \<^verbatim>\<open>new Date().toISOString().split('T')[0]\<close>.
\<close>

record runtime =
  parseInt :: "string \<Rightarrow> number"
  parseFloat :: "string \<Rightarrow> number"
  today :: string

section \<open>parseSheetData (services/googleSheetsApi.ts)\<close>

text \<open>The default pet type, \<open>sonota\<close> ("other") in UTF-8.\<close>

definition petType_other :: string where
  "petType_other = [CHR 0xE3, CHR 0x81, CHR 0x9D, CHR 0xE3, CHR 0x81, CHR 0xAE, CHR 0xE4, CHR 0xBB, CHR 0x96]"

text \<open>
  The callback of \<open>dataRows.map\<close>. The local helper \<open>getValue\<close> (header lookup, with
  \<open>trim\<close>) is defined in the callback and never called, so it has no part in the result:
  every field is read by position.
\<close>

definition format_id :: "nat \<Rightarrow> string" where
  "format_id index = CHR ''C'' # padStart (String_of (index + 1)) 3"

definition row_customer :: "runtime \<Rightarrow> nat \<Rightarrow> string list \<Rightarrow> CustomerData" where
  "row_customer rt index row =
     \<lparr> cust_id = format_id index,
       name = cell_or row 1 [],
       furigana = Some (cell_or row 2 []),
       petName = cell_or row 6 [],
       email = cell_or row 3 [],
       phone = cell_or row 4 [],
       address = cell_or row 5 [],
       petType = cell_or row 7 petType_other,
       breed = [],
       age = num_or_zero (parseInt rt (cell_or row 8 ''0'')),
       weight = num_or_zero (parseFloat rt (cell_or row 9 ''0'')),
       imageUrl = Some [],
       notes_c = cell_or row 10 [],
       createdAt = cell_or row 11 (today rt),
       lastVisit = Some (cell_or row 12 []),
       status = Active \<rparr>"

definition parseSheetData :: "runtime \<Rightarrow> string list list \<Rightarrow> CustomerData list" where
  "parseSheetData rt values =
     (if length values < 2 then []
      else
        let dataRows = drop 1 values
        in filter (\<lambda>customer. name customer \<noteq> [] \<and> petName customer \<noteq> [])
             (map (\<lambda>(index, row). row_customer rt index row) (enumerate 0 dataRows)))"

section \<open>The world outside the service\<close>

text \<open>
  An HTTP exchange either fails in transport (\<open>fetch\<close> rejects with a message) or yields a
  response: its status, its body as text, and what reading the body as JSON gives (a syntax
  error with its message, \<open>null\<close>, or a value, of which the service uses the serialisation
  \<open>JSON.stringify\<close> gives back and the \<open>values\<close> grid when there is one).
\<close>

datatype json = Unparsable string | Null | Value string "string list list option"

record http_response =
  http_status :: nat
  body_text :: string
  body_json :: json

datatype http_result = Rejected string | Responded http_response

datatype cell = Str string | Number number | Undefined

record request =
  http_method :: string
  url :: string
  body :: "cell list list option"

datatype error = Error string

text \<open>
  What the service does to its surroundings, in order: the two console lines of the retry
  loop that tell the attempts apart, the timed waits and the HTTP requests.
\<close>

datatype event =
    Console_attempt nat
  | Console_failed nat error
  | Sleep int
  | Http request

text \<open>
  The surroundings answer deterministically: \<open>clock w k\<close> is what the \<open>k\<close>-th call of
  \<open>Date.now()\<close> returns, \<open>server w k req\<close> the outcome of the \<open>k\<close>-th HTTP request, and
  \<open>setItem_ok w\<close> tells whether \<open>localStorage.setItem\<close> accepts a record list (it throws
  when the quota is exceeded).
\<close>

record world =
  rt :: runtime
  NODE_ENV :: string
  clock :: "nat \<Rightarrow> int"
  server :: "nat \<Rightarrow> request \<Rightarrow> http_result"
  setItem_ok :: "CustomerData list \<Rightarrow> bool"

text \<open>
  The text stored under a key of \<open>localStorage\<close> is modelled by what \<open>JSON.parse\<close> makes of
  it: it throws, or it gives a value.
\<close>

datatype 'a stored = Corrupt | Parsed 'a

record state =
  spreadsheetId :: string
  apiKey :: string
  lastApiCall :: int
  clock_reads :: nat
  customers_item :: "CustomerData list stored option"
  trace :: "event list"

section \<open>GoogleSheetsService (services/googleSheetsApi.ts)\<close>

definition MAX_RETRIES :: nat where "MAX_RETRIES = 3"
definition RETRY_DELAY :: int where "RETRY_DELAY = 2000"
definition MIN_API_INTERVAL :: int where "MIN_API_INTERVAL = 1000"

definition Date_now :: "world \<Rightarrow> state \<Rightarrow> int \<times> state" where
  "Date_now w s = (clock w (clock_reads s), s\<lparr>clock_reads := Suc (clock_reads s)\<rparr>)"

definition emit :: "event \<Rightarrow> state \<Rightarrow> state" where
  "emit e s = s\<lparr>trace := trace s @ [e]\<rparr>"

definition sleep :: "int \<Rightarrow> state \<Rightarrow> state" where
  "sleep ms s = emit (Sleep ms) s"

fun is_http :: "event \<Rightarrow> bool" where
  "is_http (Http req) = True"
| "is_http e = False"

fun is_attempt :: "event \<Rightarrow> bool" where
  "is_attempt (Console_attempt a) = True"
| "is_attempt e = False"

definition http_count :: "event list \<Rightarrow> nat" where
  "http_count tr = length (filter is_http tr)"

definition attempt_count :: "event list \<Rightarrow> nat" where
  "attempt_count tr = length (filter is_attempt tr)"

definition fetch :: "world \<Rightarrow> request \<Rightarrow> state \<Rightarrow> http_result \<times> state" where
  "fetch w req s = (server w (http_count (trace s)) req, emit (Http req) s)"

definition ok :: "http_response \<Rightarrow> bool" where
  "ok r = (200 \<le> http_status r \<and> http_status r \<le> 299)"

text \<open>\<open>trim\<close>, on the ASCII white space (tab, line feed, vertical tab, form feed, carriage
  return, space).\<close>

definition is_space :: "char \<Rightarrow> bool" where
  "is_space c = (c \<in> set [CHR 0x09, CHR 0x0A, CHR 0x0B, CHR 0x0C, CHR 0x0D, CHR 0x20])"

definition trim :: "string \<Rightarrow> string" where
  "trim s = rev (dropWhile is_space (rev (dropWhile is_space s)))"

text \<open>
  \<open>getLocalCustomers\<close> and \<open>saveLocalCustomers\<close>: both swallow what the storage throws.
  What is stored is \<^verbatim>\<open>JSON.stringify(customers)\<close>, so what is read back later is the JSON
  image of every record.
\<close>

definition getLocalCustomers :: "state \<Rightarrow> CustomerData list" where
  "getLocalCustomers s =
     (case customers_item s of
        None \<Rightarrow> []
      | Some Corrupt \<Rightarrow> []
      | Some (Parsed data) \<Rightarrow> data)"

definition saveLocalCustomers :: "world \<Rightarrow> CustomerData list \<Rightarrow> state \<Rightarrow> state" where
  "saveLocalCustomers w customers s =
     (if setItem_ok w customers
      then s\<lparr>customers_item := Some (Parsed (map json_image customers))\<rparr>
      else s)"

text \<open>The sheet name, as \<open>encodeURIComponent\<close> renders it.\<close>

definition sheetName_encoded :: string where
  "sheetName_encoded = ''%E3%83%95%E3%82%A9%E3%83%BC%E3%83%A0%E3%81%AE%E5%9B%9E%E7%AD%94''"

definition spreadsheets_base :: string where
  "spreadsheets_base = ''https://sheets.googleapis.com/v4/spreadsheets/''"

definition GET :: "string \<Rightarrow> request" where
  "GET u = \<lparr> http_method = ''GET'', url = u, body = None \<rparr>"

text \<open>The message of the \<open>TypeError\<close> that reading \<open>.values\<close> of \<open>null\<close> throws (V8's wording).\<close>

definition null_values_message :: string where
  "null_values_message = ''Cannot read properties of null (reading 'values')''"

definition fetchFromGoogleSheets :: "world \<Rightarrow> state \<Rightarrow> (error + CustomerData list) \<times> state" where
  "fetchFromGoogleSheets w s =
     (let spreadsheetInfoUrl = spreadsheets_base @ trim (spreadsheetId s) @ ''?key='' @ apiKey s;
          (infoResponse, s1) = fetch w (GET spreadsheetInfoUrl) s
      in case infoResponse of
           Rejected m \<Rightarrow> (Inl (Error m), s1)
         | Responded info \<Rightarrow>
             if \<not> ok info then
               (Inl (Error (''Spreadsheet info request failed: '' @ String_of (http_status info))), s1)
             else
               (case body_json info of
                  Unparsable m \<Rightarrow> (Inl (Error m), s1)
                | _ \<Rightarrow>
                    let values_url = spreadsheets_base @ trim (spreadsheetId s) @ ''/values/''
                                     @ sheetName_encoded @ ''?key='' @ apiKey s;
                        (response, s2) = fetch w (GET values_url) s1
                    in (case response of
                         Rejected m \<Rightarrow> (Inl (Error m), s2)
                       | Responded r \<Rightarrow>
                           if \<not> ok r then
                             (Inl (Error (''HTTP error! status: '' @ String_of (http_status r)
                                          @ '', message: '' @ body_text r)), s2)
                           else
                             (case body_json r of
                                Unparsable m \<Rightarrow> (Inl (Error m), s2)
                              | Null \<Rightarrow> (Inl (Error null_values_message), s2)
                              | Value str vs \<Rightarrow>
                                  (Inr (parseSheetData (rt w) (case vs of None \<Rightarrow> [] | Some v \<Rightarrow> v)),
                                   s2)))))"

definition max_retries_message :: string where
  "max_retries_message =
    [CHR 0xE6, CHR 0x9C, CHR 0x80, CHR 0xE5, CHR 0xA4, CHR 0xA7, CHR 0xE3, CHR 0x83, CHR 0xAA,
     CHR 0xE3, CHR 0x83, CHR 0x88, CHR 0xE3, CHR 0x83, CHR 0xA9, CHR 0xE3, CHR 0x82, CHR 0xA4,
     CHR 0xE5, CHR 0x9B, CHR 0x9E, CHR 0xE6, CHR 0x95, CHR 0xB0, CHR 0xE3, CHR 0x81, CHR 0xAB,
     CHR 0xE9, CHR 0x81, CHR 0x94, CHR 0xE3, CHR 0x81, CHR 0x97, CHR 0xE3, CHR 0x81, CHR 0xBE,
     CHR 0xE3, CHR 0x81, CHR 0x97, CHR 0xE3, CHR 0x81, CHR 0x9F]"

definition is_rate_limit :: "string \<Rightarrow> bool" where
  "is_rate_limit message = (includes_str message ''429'' \<or> includes_str message ''RATE_LIMIT_EXCEEDED'')"

definition backoff_delay :: "nat \<Rightarrow> int" where
  "backoff_delay attempt = RETRY_DELAY * 2 ^ (attempt - 1)"

text \<open>The head of the loop body: the console line and the time stamp of the attempt.\<close>

definition begin_attempt :: "world \<Rightarrow> nat \<Rightarrow> state \<Rightarrow> state" where
  "begin_attempt w attempt s =
     (let s1 = emit (Console_attempt attempt) s;
          (now, s2) = Date_now w s1
      in s2\<lparr>lastApiCall := now\<rparr>)"

text \<open>The \<open>for\<close> loop of \<open>fetchFromGoogleSheetsWithRetry\<close>, from a given attempt number on.\<close>

function retry_loop :: "world \<Rightarrow> nat \<Rightarrow> state \<Rightarrow> (error + CustomerData list) \<times> state" where
  "retry_loop w attempt s =
     (if attempt \<le> MAX_RETRIES then
        (case fetchFromGoogleSheets w (begin_attempt w attempt s) of
           (Inr data, s1) \<Rightarrow> (Inr data, s1)
         | (Inl (Error message), s1) \<Rightarrow>
             let s2 = emit (Console_failed attempt (Error message)) s1
             in if is_rate_limit message then
                  retry_loop w (attempt + 1) (sleep (backoff_delay attempt) s2)
                else if attempt = MAX_RETRIES then
                  (let localData = getLocalCustomers s2
                   in if length localData > 0 then (Inr localData, s2) else (Inr [], s2))
                else (Inl (Error message), s2))
      else (Inl (Error max_retries_message), s))"
  by pat_completeness auto
termination
  by (relation "measure (\<lambda>(w, attempt, s). Suc MAX_RETRIES - attempt)") auto

declare retry_loop.simps [simp del]

text \<open>The wait that keeps two calls \<open>MIN_API_INTERVAL\<close> apart.\<close>

definition throttle :: "world \<Rightarrow> state \<Rightarrow> state" where
  "throttle w s =
     (let (now, s1) = Date_now w s;
          timeSinceLastCall = now - lastApiCall s1
      in if timeSinceLastCall < MIN_API_INTERVAL
         then sleep (MIN_API_INTERVAL - timeSinceLastCall) s1
         else s1)"

definition fetchFromGoogleSheetsWithRetry :: "world \<Rightarrow> state \<Rightarrow> (error + CustomerData list) \<times> state" where
  "fetchFromGoogleSheetsWithRetry w s = retry_loop w 1 (throttle w s)"

definition configured :: "world \<Rightarrow> state \<Rightarrow> bool" where
  "configured w s = (NODE_ENV w = ''production'' \<and> spreadsheetId s \<noteq> [] \<and> apiKey s \<noteq> [])"

definition getCustomers :: "world \<Rightarrow> state \<Rightarrow> (error + CustomerData list) \<times> state" where
  "getCustomers w s =
     (if configured w s then
        (case fetchFromGoogleSheetsWithRetry w s of
           (Inr data, s1) \<Rightarrow> (Inr data, saveLocalCustomers w data s1)
         | (Inl e, s1) \<Rightarrow>
             let localData = getLocalCustomers s1
             in if length localData > 0 then (Inr localData, s1) else (Inr [], s1))
      else fetchFromGoogleSheetsWithRetry w s)"

definition not_found_message :: string where
  "not_found_message =
    [CHR 0xE9, CHR 0xA1, CHR 0xA7, CHR 0xE5, CHR 0xAE, CHR 0xA2, CHR 0xE3, CHR 0x81, CHR 0x8C,
     CHR 0xE8, CHR 0xA6, CHR 0x8B, CHR 0xE3, CHR 0x81, CHR 0xA4, CHR 0xE3, CHR 0x81, CHR 0x8B,
     CHR 0xE3, CHR 0x82, CHR 0x8A, CHR 0xE3, CHR 0x81, CHR 0xBE, CHR 0xE3, CHR 0x81, CHR 0x9B,
     CHR 0xE3, CHR 0x82, CHR 0x93]"

text \<open>The prefix of the message of a refused write: \<open>Google Sheets API\<close>, the word for
  "error", a colon.\<close>

definition sheets_error_prefix :: string where
  "sheets_error_prefix = ''Google Sheets API'' @
    [CHR 0x20, CHR 0xE3, CHR 0x82, CHR 0xA8, CHR 0xE3, CHR 0x83, CHR 0xA9, CHR 0xE3, CHR 0x83,
     CHR 0xBC, CHR 0x3A, CHR 0x20]"

text \<open>The thirteen columns A to M that \<open>updateCustomerInSheets\<close> writes.\<close>

definition rowData :: "CustomerData \<Rightarrow> cell list" where
  "rowData customer =
     [ Str [],
       Str (name customer),
       Str (case furigana customer of None \<Rightarrow> [] | Some f \<Rightarrow> f),
       Str (email customer),
       Str (phone customer),
       Str (address customer),
       Str (petName customer),
       Str (petType customer),
       Number (age customer),
       Number (weight customer),
       Str (notes_c customer),
       Str (createdAt customer),
       (case lastVisit customer of None \<Rightarrow> Undefined | Some v \<Rightarrow> Str v) ]"

definition put_url :: "state \<Rightarrow> nat \<Rightarrow> string" where
  "put_url s rowNumber =
     spreadsheets_base @ spreadsheetId s @ ''/values/A'' @ String_of rowNumber @ '':M''
     @ String_of rowNumber @ ''?valueInputOption=RAW&key='' @ apiKey s"

definition updateCustomerInSheets :: "world \<Rightarrow> CustomerData \<Rightarrow> state \<Rightarrow> (error + unit) \<times> state" where
  "updateCustomerInSheets w customer s =
     (case getCustomers w s of
        (Inl e, s1) \<Rightarrow> (Inl e, s1)
      | (Inr customers, s1) \<Rightarrow>
          (case findIndex (\<lambda>c. cust_id c = cust_id customer) customers of
             None \<Rightarrow> (Inl (Error not_found_message), s1)
           | Some customerIndex \<Rightarrow>
               let rowNumber = customerIndex + 2;
                   requestBody = [rowData customer];
                   (response, s2) =
                     fetch w \<lparr> http_method = ''PUT'', url = put_url s1 rowNumber,
                               body = Some requestBody \<rparr> s1
               in (case response of
                     Rejected m \<Rightarrow> (Inl (Error m), s2)
                   | Responded r \<Rightarrow>
                       if \<not> ok r then
                         (case body_json r of
                            Unparsable m \<Rightarrow> (Inl (Error m), s2)
                          | Null \<Rightarrow>
                              (Inl (Error (sheets_error_prefix @ String_of (http_status r)
                                           @ '' - '' @ ''null'')), s2)
                          | Value str vs \<Rightarrow>
                              (Inl (Error (sheets_error_prefix @ String_of (http_status r)
                                           @ '' - '' @ str)), s2))
                       else (Inr (), s2))))"

definition updateCustomer :: "world \<Rightarrow> CustomerData \<Rightarrow> state \<Rightarrow> (error + unit) \<times> state" where
  "updateCustomer w updatedCustomer s =
     (let customers = getLocalCustomers s
      in case findIndex (\<lambda>c. cust_id c = cust_id updatedCustomer) customers of
           None \<Rightarrow> (Inl (Error not_found_message), s)
         | Some customerIndex \<Rightarrow>
             let s1 = saveLocalCustomers w (customers[customerIndex := updatedCustomer]) s
             in if NODE_ENV w = ''production'' then updateCustomerInSheets w updatedCustomer s1
                else (Inr (), s1))"

section \<open>PhotoService (services/photoService.ts)\<close>

record PetPhoto =
  photo_id :: string
  customerId :: string
  fileName :: string
  dataUrl :: string
  fileSize :: nat
  uploadedAt :: string
  description :: "string option"

record PhotoUploadResult =
  success :: bool
  photo :: "PetPhoto option"
  error :: "string option"

record File =
  file_name :: string
  file_size :: nat

text \<open>
  What an upload asks of the browser: the file read as a data URL (\<open>None\<close> when the reader
  fails), \<open>Date.now()\<close>, \<open>Math.random().toString(36)\<close>, \<open>new Date().toISOString()\<close>, and
  whether \<open>localStorage.setItem\<close> accepts the photo list.
\<close>

record browser =
  readAsDataURL :: "File \<Rightarrow> string option"
  now_ms :: nat
  random_base36 :: string
  now_iso :: string
  photos_setItem_ok :: "PetPhoto list \<Rightarrow> bool"

type_synonym photo_storage = "PetPhoto list stored option"

definition MAX_PHOTOS_PER_CUSTOMER :: nat where "MAX_PHOTOS_PER_CUSTOMER = 50"
definition MAX_FILE_SIZE :: nat where "MAX_FILE_SIZE = 5 * 1024 * 1024"

definition getAllPhotos :: "photo_storage \<Rightarrow> PetPhoto list" where
  "getAllPhotos st =
     (case st of
        None \<Rightarrow> []
      | Some Corrupt \<Rightarrow> []
      | Some (Parsed photos) \<Rightarrow> photos)"

definition getPhotosByCustomerId :: "photo_storage \<Rightarrow> string \<Rightarrow> PetPhoto list" where
  "getPhotosByCustomerId st cid = filter (\<lambda>photo. customerId photo = cid) (getAllPhotos st)"

definition file_too_large_message :: string where
  "file_too_large_message =
    [CHR 0xE3, CHR 0x83, CHR 0x95, CHR 0xE3, CHR 0x82, CHR 0xA1, CHR 0xE3, CHR 0x82, CHR 0xA4,
     CHR 0xE3, CHR 0x83, CHR 0xAB, CHR 0xE3, CHR 0x82, CHR 0xB5, CHR 0xE3, CHR 0x82, CHR 0xA4,
     CHR 0xE3, CHR 0x82, CHR 0xBA, CHR 0xE3, CHR 0x81, CHR 0x8C, CHR 0xE5, CHR 0xA4, CHR 0xA7,
     CHR 0xE3, CHR 0x81, CHR 0x8D, CHR 0xE3, CHR 0x81, CHR 0x99, CHR 0xE3, CHR 0x81, CHR 0x8E,
     CHR 0xE3, CHR 0x81, CHR 0xBE, CHR 0xE3, CHR 0x81, CHR 0x99, CHR 0xE3, CHR 0x80, CHR 0x82,
     CHR 0xE6, CHR 0x9C, CHR 0x80, CHR 0xE5, CHR 0xA4, CHR 0xA7]
    @ String_of (MAX_FILE_SIZE div (1024 * 1024)) @
    [CHR 0x4D, CHR 0x42, CHR 0xE3, CHR 0x81, CHR 0xBE, CHR 0xE3, CHR 0x81, CHR 0xA7, CHR 0xE3,
     CHR 0x81, CHR 0xA7, CHR 0xE3, CHR 0x81, CHR 0x99, CHR 0xE3, CHR 0x80, CHR 0x82]"

definition too_many_photos_message :: string where
  "too_many_photos_message =
    [CHR 0x31, CHR 0xE9, CHR 0xA1, CHR 0xA7, CHR 0xE5, CHR 0xAE, CHR 0xA2, CHR 0xE3, CHR 0x81,
     CHR 0x82, CHR 0xE3, CHR 0x81, CHR 0x9F, CHR 0xE3, CHR 0x82, CHR 0x8A, CHR 0xE6, CHR 0x9C,
     CHR 0x80, CHR 0xE5, CHR 0xA4, CHR 0xA7]
    @ String_of MAX_PHOTOS_PER_CUSTOMER @
    [CHR 0xE6, CHR 0x9E, CHR 0x9A, CHR 0xE3, CHR 0x81, CHR 0xBE, CHR 0xE3, CHR 0x81, CHR 0xA7,
     CHR 0xE3, CHR 0x81, CHR 0xA7, CHR 0xE3, CHR 0x81, CHR 0x99, CHR 0xE3, CHR 0x80, CHR 0x82]"

definition upload_failed_message :: string where
  "upload_failed_message =
    [CHR 0xE5, CHR 0x86, CHR 0x99, CHR 0xE7, CHR 0x9C, CHR 0x9F, CHR 0xE3, CHR 0x81, CHR 0xAE,
     CHR 0xE3, CHR 0x82, CHR 0xA2, CHR 0xE3, CHR 0x83, CHR 0x83, CHR 0xE3, CHR 0x83, CHR 0x97,
     CHR 0xE3, CHR 0x83, CHR 0xAD, CHR 0xE3, CHR 0x83, CHR 0xBC, CHR 0xE3, CHR 0x83, CHR 0x89,
     CHR 0xE3, CHR 0x81, CHR 0xAB, CHR 0xE5, CHR 0xA4, CHR 0xB1, CHR 0xE6, CHR 0x95, CHR 0x97,
     CHR 0xE3, CHR 0x81, CHR 0x97, CHR 0xE3, CHR 0x81, CHR 0xBE, CHR 0xE3, CHR 0x81, CHR 0x97,
     CHR 0xE3, CHR 0x81, CHR 0x9F, CHR 0xE3, CHR 0x80, CHR 0x82]"

definition failure :: "string \<Rightarrow> PhotoUploadResult" where
  "failure message = \<lparr> success = False, photo = None, error = Some message \<rparr>"

definition uploadPhoto ::
  "browser \<Rightarrow> string \<Rightarrow> File \<Rightarrow> string option \<Rightarrow> photo_storage \<Rightarrow> PhotoUploadResult \<times> photo_storage"
where
  "uploadPhoto b cid file descr st =
     (if file_size file > MAX_FILE_SIZE then (failure file_too_large_message, st)
      else
        let customerPhotos = getPhotosByCustomerId st cid
        in if length customerPhotos \<ge> MAX_PHOTOS_PER_CUSTOMER then
             (failure too_many_photos_message, st)
           else
             (case readAsDataURL b file of
                None \<Rightarrow> (failure upload_failed_message, st)
              | Some data \<Rightarrow>
                  let new_photo =
                        \<lparr> photo_id = ''photo_'' @ String_of (now_ms b) @ ''_''
                                     @ take 9 (drop 2 (random_base36 b)),
                          customerId = cid,
                          fileName = file_name file,
                          dataUrl = data,
                          fileSize = file_size file,
                          uploadedAt = now_iso b,
                          description = descr \<rparr>;
                      allPhotos = getAllPhotos st @ [new_photo]
                  in if photos_setItem_ok b allPhotos then
                       (\<lparr> success = True, photo = Some new_photo, error = None \<rparr>,
                        Some (Parsed allPhotos))
                     else (failure upload_failed_message, st)))"

section \<open>Reading a trace\<close>

text \<open>The events a run has added to the trace.\<close>

definition new_events :: "state \<Rightarrow> state \<Rightarrow> event list" where
  "new_events s s' = drop (length (trace s)) (trace s')"

text \<open>
  The back-off schedule as the specification words it, read off a trace: a failure of attempt
  \<open>a\<close> whose message is of the rate-limit class is followed at once by a wait of
  \<open>2000 * 2 ^ (a - 1)\<close> milliseconds, and what follows the wait, if anything, is attempt
  \<open>a + 1\<close>.
\<close>

fun backoff_respected :: "event list \<Rightarrow> bool" where
  "backoff_respected [] = True"
| "backoff_respected (Console_failed a (Error m) # es) =
     (if is_rate_limit m then
        (case es of
           Sleep d # es' \<Rightarrow>
             d = 2000 * 2 ^ (a - 1)
             \<and> (case es' of [] \<Rightarrow> True | e # es'' \<Rightarrow> e = Console_attempt (a + 1))
             \<and> backoff_respected es'
         | _ \<Rightarrow> False)
      else backoff_respected es)"
| "backoff_respected (e # es) = backoff_respected es"

text \<open>
  What a run of the loop that starts at attempt \<open>a\<close> adds to the trace: nothing when the
  attempts are used up, and otherwise the console line of attempt \<open>a\<close>, at least one HTTP
  request, and a remainder that keeps the schedule and holds no more attempts than are left.
\<close>

definition loop_segment :: "nat \<Rightarrow> event list \<Rightarrow> bool" where
  "loop_segment a seg =
     (backoff_respected seg \<and> attempt_count seg \<le> Suc MAX_RETRIES - a
      \<and> (case seg of [] \<Rightarrow> MAX_RETRIES < a | e # es \<Rightarrow> e = Console_attempt a \<and> 0 < http_count es))"

text \<open>
  \<open>all_rate_limited w a k s\<close>: started in state \<open>s\<close> at attempt \<open>a\<close>, the next \<open>k\<close> attempts
  all fail with an error of the rate-limit class (the state between two attempts is the one
  the loop produces: the failure is logged and the back-off wait is made).
\<close>

fun all_rate_limited :: "world \<Rightarrow> nat \<Rightarrow> nat \<Rightarrow> state \<Rightarrow> bool" where
  "all_rate_limited w a 0 s = True"
| "all_rate_limited w a (Suc k) s =
     (case fetchFromGoogleSheets w (begin_attempt w a s) of
        (Inl (Error m), s1) \<Rightarrow>
          is_rate_limit m
          \<and> all_rate_limited w (a + 1) k
                (sleep (backoff_delay a) (emit (Console_failed a (Error m)) s1))
      | (Inr data, s1) \<Rightarrow> False)"

section \<open>Decimal numerals read back\<close>

definition digit_value :: "char \<Rightarrow> nat" where
  "digit_value c = length (takeWhile (\<lambda>d. d \<noteq> c) ''0123456789'')"

definition decimal_value :: "string \<Rightarrow> nat" where
  "decimal_value s = foldl (\<lambda>a c. 10 * a + digit_value c) 0 s"

section \<open>Example surroundings\<close>

definition example_runtime :: runtime where
  "example_runtime =
     \<lparr> parseInt = (\<lambda>s. if s = ''3'' then Num 3 else if s = ''0'' then Num 0 else NaN),
       parseFloat = (\<lambda>s. if s = ''3'' then Num 3 else if s = ''0'' then Num 0
                         else if s = ''1e400'' then Infinity True else NaN),
       today = ''2025-01-01'' \<rparr>"

definition header_row :: "string list" where
  "header_row = [''Timestamp'', ''Name'', ''Reading'', ''Mail'', ''Phone'', ''Address'', ''Pet'']"

definition row_taro :: "string list" where
  "row_taro = [''2025/01/01'', ''Taro'', ''taro'', ''a@b.com'', ''090'', ''Tokyo'', ''Pochi'', ''dog'', ''3'']"

definition row_jiro :: "string list" where
  "row_jiro = [''2025/01/02'', ''Jiro'', ''jiro'', ''c@d.com'', ''080'', ''Osaka'', ''Tama'']"

definition row_blank_owner :: "string list" where
  "row_blank_owner = [''2025/01/03'', ''  '', [], ''e@f.com'', ''070'', ''Nara'', ''Koro'']"


definition answer :: "nat \<Rightarrow> string \<Rightarrow> json \<Rightarrow> http_result" where
  "answer st txt js = Responded \<lparr> http_status = st, body_text = txt, body_json = js \<rparr>"

text \<open>A server that answers every request with the same sheet.\<close>

definition sheet_server :: "string list list \<Rightarrow> nat \<Rightarrow> request \<Rightarrow> http_result" where
  "sheet_server grid k req = answer 200 ''{}'' (Value ''{}'' (Some grid))"

text \<open>A server that refuses every request with the same status.\<close>

definition refusing_server :: "nat \<Rightarrow> nat \<Rightarrow> request \<Rightarrow> http_result" where
  "refusing_server st k req = answer st ''{}'' (Value ''{}'' None)"


text \<open>A server that refuses every read with status 500 and accepts every write.\<close>

definition write_only_server :: "nat \<Rightarrow> request \<Rightarrow> http_result" where
  "write_only_server k req =
     (if http_method req = ''PUT'' then answer 200 ''{}'' (Value ''{}'' None)
      else refusing_server 500 k req)"

definition example_world :: "string \<Rightarrow> (nat \<Rightarrow> request \<Rightarrow> http_result) \<Rightarrow> world" where
  "example_world env srv =
     \<lparr> rt = example_runtime, NODE_ENV = env, clock = (\<lambda>k. 5000 * (int k + 1)),
       server = srv, setItem_ok = (\<lambda>customers. True) \<rparr>"

definition old_customer :: CustomerData where
  "old_customer = row_customer example_runtime 6 row_jiro"

definition example_state :: "string \<Rightarrow> string \<Rightarrow> state" where
  "example_state sid key =
     \<lparr> spreadsheetId = sid, apiKey = key, lastApiCall = 0, clock_reads = 0,
       customers_item = Some (Parsed [old_customer]), trace = [] \<rparr>"

text \<open>The record of the second data row, and a state whose cache holds nothing else (the
  first record was deleted locally).\<close>

definition cached_jiro :: CustomerData where
  "cached_jiro = row_customer example_runtime 1 row_jiro"

definition stale_state :: state where
  "stale_state =
     \<lparr> spreadsheetId = ''sheet1'', apiKey = ''key1'', lastApiCall = 0, clock_reads = 0,
       customers_item = Some (Parsed [cached_jiro]), trace = [] \<rparr>"

definition example_browser :: browser where
  "example_browser =
     \<lparr> readAsDataURL = (\<lambda>file. Some ''data:image/png;base64,AAAA''), now_ms = 1700000000000,
       random_base36 = ''0.4fzyo82mvyr'', now_iso = ''2023-11-14T22:13:20.000Z'',
       photos_setItem_ok = (\<lambda>photos. True) \<rparr>"

section \<open>Identifiers\<close>

lemma digit_value_digit_char:
  assumes "d < 10"
  shows "digit_value (digit_char d) = d"
proof -
  from assms have "d \<in> {0, 1, 2, 3, 4, 5, 6, 7, 8, 9}"
    by auto
  then show ?thesis
    by (auto simp: digit_value_def digit_char_def)
qed

lemma decimal_value_snoc: "decimal_value (s @ [c]) = 10 * decimal_value s + digit_value c"
  by (simp add: decimal_value_def)

lemma decimal_value_String_of: "decimal_value (String_of n) = n"
proof (induction n rule: String_of.induct)
  case (1 n)
  show ?case
  proof (cases "n < 10")
    case True
    then show ?thesis
      by (subst String_of.simps) (simp add: decimal_value_def digit_value_digit_char)
  next
    case False
    then have "decimal_value (String_of (n div 10)) = n div 10"
      using 1 by simp
    with False show ?thesis
      by (subst String_of.simps) (simp add: decimal_value_snoc digit_value_digit_char)
  qed
qed

lemma decimal_value_zeros: "decimal_value (replicate k (CHR ''0'') @ s) = decimal_value s"
proof -
  have "foldl (\<lambda>a c. 10 * a + digit_value c) 0 (replicate k (CHR ''0'')) = 0"
    by (induction k) (simp_all add: digit_value_def)
  then show ?thesis
    by (simp add: decimal_value_def)
qed

lemma decimal_value_padStart: "decimal_value (padStart s w) = decimal_value s"
  by (simp add: padStart_def decimal_value_zeros)

lemma format_id_inj: "format_id i = format_id j \<Longrightarrow> i = j"
proof -
  assume "format_id i = format_id j"
  then have "decimal_value (padStart (String_of (i + 1)) 3)
           = decimal_value (padStart (String_of (j + 1)) 3)"
    by (simp add: format_id_def)
  then show "i = j"
    by (simp add: decimal_value_padStart decimal_value_String_of)
qed

section \<open>The parser\<close>

lemma cell_or_nonempty: "(cell_or row i [] \<noteq> []) = (i < length row \<and> row ! i \<noteq> [])"
  by (simp add: cell_or_def at_index_def)

lemma cust_id_row_customer: "cust_id (row_customer rtm i row) = format_id i"
  by (simp add: row_customer_def)

lemma row_customer_kept:
  "(name (row_customer rtm i row) \<noteq> [] \<and> petName (row_customer rtm i row) \<noteq> [])
   = ((1 < length row \<and> row ! 1 \<noteq> []) \<and> (6 < length row \<and> row ! 6 \<noteq> []))"
  by (simp add: row_customer_def cell_or_nonempty)

lemma map_enumerate_fst: "map (\<lambda>(i, r). f i) (enumerate n xs) = map f [n..<n + length xs]"
  by (induction xs arbitrary: n) (simp_all add: upt_rec)

lemma parseSheetData_rows:
  "parseSheetData rtm (header # rows) =
     filter (\<lambda>customer. name customer \<noteq> [] \<and> petName customer \<noteq> [])
       (map (\<lambda>(index, row). row_customer rtm index row) (enumerate 0 rows))"
  by (cases rows) (simp_all add: parseSheetData_def)

lemma parsed_ids:
  "\<exists>ks. map cust_id (parseSheetData rtm values) = map format_id ks \<and> distinct ks"
proof (cases "length values < 2")
  case True
  then have "map cust_id (parseSheetData rtm values) = map format_id []"
    by (simp add: parseSheetData_def)
  then show ?thesis
    by (metis distinct.simps(1))
next
  case False
  define P where
    "P = (\<lambda>(i::nat, row). name (row_customer rtm i row) \<noteq> [] \<and> petName (row_customer rtm i row) \<noteq> [])"
  define es where "es = enumerate 0 (drop 1 values)"
  have "parseSheetData rtm values = map (\<lambda>(index, row). row_customer rtm index row) (filter P es)"
    using False
    by (simp add: parseSheetData_def Let_def filter_map o_def P_def es_def case_prod_unfold)
  then have "map cust_id (parseSheetData rtm values) = map format_id (map fst (filter P es))"
    by (simp add: o_def case_prod_unfold cust_id_row_customer)
  moreover have "distinct (map fst (filter P es))"
    unfolding es_def by (rule distinct_map_filter) simp
  ultimately show ?thesis
    by blast
qed

lemma all_rows_kept:
  assumes "\<forall>row \<in> set rows. 6 < length row \<and> row ! 1 \<noteq> [] \<and> row ! 6 \<noteq> []"
  shows "parseSheetData rtm (header # rows)
       = map (\<lambda>(index, row). row_customer rtm index row) (enumerate 0 rows)"
proof -
  define es where "es = map (\<lambda>(index, row). row_customer rtm index row) (enumerate 0 rows)"
  have "\<forall>c \<in> set es. name c \<noteq> [] \<and> petName c \<noteq> []"
  proof
    fix c
    assume "c \<in> set es"
    then obtain i where i: "i < length rows" and c: "c = row_customer rtm i (rows ! i)"
      by (auto simp: es_def in_set_enumerate_eq)
    from i assms have "6 < length (rows ! i) \<and> rows ! i ! 1 \<noteq> [] \<and> rows ! i ! 6 \<noteq> []"
      by simp
    then show "name c \<noteq> [] \<and> petName c \<noteq> []"
      using row_customer_kept[of rtm i "rows ! i"] unfolding c by simp
  qed
  then have "filter (\<lambda>customer. name customer \<noteq> [] \<and> petName customer \<noteq> []) es = es"
    by (simp add: filter_id_conv)
  then show ?thesis
    by (simp add: parseSheetData_rows es_def)
qed

lemma example_parse_two:
  "map cust_id (parseSheetData example_runtime [header_row, row_taro, row_jiro]) = [''C001'', ''C002'']"
  by code_simp

lemma example_rows_complete:
  "\<forall>row \<in> set [row_taro, row_jiro]. 6 < length row \<and> row ! 1 \<noteq> [] \<and> row ! 6 \<noteq> []"
  by (simp add: row_taro_def row_jiro_def)

text \<open>
  C1. A grid of a header row and \<open>N\<close> data rows that all have a non-empty owner name (column
  B) and a non-empty pet name (column G) is parsed into exactly \<open>N\<close> records, and the record
  of data row \<open>k\<close> (counted from 1) has the identifier \<open>C\<close> followed by \<open>k\<close> in decimal, padded
  with zeros to three digits: \<open>C001\<close>, \<open>C002\<close>, ... in row order.
\<close>

theorem parse_complete_grid:
  assumes "\<forall>row \<in> set rows. 6 < length row \<and> row ! 1 \<noteq> [] \<and> row ! 6 \<noteq> []"
  shows "length (parseSheetData rtm (header # rows)) = length rows
       \<and> map cust_id (parseSheetData rtm (header # rows))
         = map (\<lambda>k. CHR ''C'' # padStart (String_of k) 3) [1..<Suc (length rows)]"
proof -
  let ?es = "map (\<lambda>(index, row). row_customer rtm index row) (enumerate 0 rows)"
  have p: "parseSheetData rtm (header # rows) = ?es"
    using assms by (rule all_rows_kept)
  have "map cust_id ?es = map format_id [0..<length rows]"
    using map_enumerate_fst[of format_id 0 rows]
    by (simp add: o_def case_prod_unfold cust_id_row_customer)
  also have "\<dots> = map (\<lambda>k. CHR ''C'' # padStart (String_of k) 3) (map Suc [0..<length rows])"
    by (simp add: format_id_def o_def)
  also have "map Suc [0..<length rows] = [1..<Suc (length rows)]"
    by (simp add: map_Suc_upt)
  finally show ?thesis
    using p by simp
qed

theorem parse_complete_grid_witness:
  "6 < length row_taro \<and> row_taro ! 1 = ''Taro'' \<and> row_taro ! 6 = ''Pochi''
   \<and> 6 < length row_jiro \<and> row_jiro ! 1 = ''Jiro'' \<and> row_jiro ! 6 = ''Tama''
   \<and> length (parseSheetData example_runtime (header_row # [row_taro, row_jiro])) = 2
   \<and> map cust_id (parseSheetData example_runtime (header_row # [row_taro, row_jiro]))
     = [''C001'', ''C002'']"
  using parse_complete_grid[OF example_rows_complete, of example_runtime header_row]
    example_parse_two
  by (simp add: row_taro_def row_jiro_def)

text \<open>
  C2, as the claim states it, fails: nothing is trimmed. A data row whose owner name is two
  blanks is kept.
\<close>

theorem blank_owner_kept_counterexample:
  "map name (parseSheetData example_runtime [header_row, row_blank_owner]) = [''  '']"
  by code_simp

text \<open>
  C2, amended. The record of data row \<open>k\<close> is in the result exactly when the owner-name cell
  and the pet-name cell of the row are both present and non-empty as they stand; no white
  space is removed before the test.
\<close>

theorem row_kept_iff_cells_nonempty:
  assumes "k < length rows"
  shows "(row_customer rtm k (rows ! k) \<in> set (parseSheetData rtm (header # rows)))
       = ((1 < length (rows ! k) \<and> rows ! k ! 1 \<noteq> []) \<and> (6 < length (rows ! k) \<and> rows ! k ! 6 \<noteq> []))"
proof
  assume "row_customer rtm k (rows ! k) \<in> set (parseSheetData rtm (header # rows))"
  then have "name (row_customer rtm k (rows ! k)) \<noteq> [] \<and> petName (row_customer rtm k (rows ! k)) \<noteq> []"
    by (simp add: parseSheetData_rows)
  then show "(1 < length (rows ! k) \<and> rows ! k ! 1 \<noteq> []) \<and> (6 < length (rows ! k) \<and> rows ! k ! 6 \<noteq> [])"
    by (simp add: row_customer_kept)
next
  assume c: "(1 < length (rows ! k) \<and> rows ! k ! 1 \<noteq> []) \<and> (6 < length (rows ! k) \<and> rows ! k ! 6 \<noteq> [])"
  have "(k, rows ! k) \<in> set (enumerate 0 rows)"
    using assms by (simp add: in_set_enumerate_eq)
  then have "row_customer rtm k (rows ! k)
             \<in> set (map (\<lambda>(index, row). row_customer rtm index row) (enumerate 0 rows))"
    by force
  moreover have "name (row_customer rtm k (rows ! k)) \<noteq> [] \<and> petName (row_customer rtm k (rows ! k)) \<noteq> []"
    using c by (simp add: row_customer_kept)
  ultimately show "row_customer rtm k (rows ! k) \<in> set (parseSheetData rtm (header # rows))"
    by (simp add: parseSheetData_rows)
qed

theorem row_kept_iff_cells_nonempty_witness:
  "(0::nat) < length [row_blank_owner]
   \<and> row_customer example_runtime 0 row_blank_owner
       \<in> set (parseSheetData example_runtime (header_row # [row_blank_owner]))"
proof -
  have k: "(0::nat) < length [row_blank_owner]"
    by simp
  show ?thesis
    using k row_kept_iff_cells_nonempty[OF k, of example_runtime header_row]
    by (simp add: row_blank_owner_def)
qed

text \<open>
  C9. The identifiers of the records of one parsed result are pairwise distinct, for every
  grid: each is made from the position of its row among the data rows.
\<close>

theorem parsed_identifiers_distinct: "distinct (map cust_id (parseSheetData rtm values))"
proof -
  obtain ks where eq: "map cust_id (parseSheetData rtm values) = map format_id ks"
    and d: "distinct ks"
    using parsed_ids by blast
  have "inj_on format_id (set ks)"
    by (auto simp: inj_on_def dest: format_id_inj)
  with d show ?thesis
    unfolding eq by (simp add: distinct_map)
qed

theorem parsed_identifiers_distinct_witness:
  "distinct (map cust_id (parseSheetData example_runtime [header_row, row_taro, row_blank_owner, row_jiro]))
   \<and> map cust_id (parseSheetData example_runtime [header_row, row_taro, [], row_jiro]) = [''C001'', ''C003'']"
proof -
  have "map cust_id (parseSheetData example_runtime [header_row, row_taro, [], row_jiro]) = [''C001'', ''C003'']"
    by code_simp
  then show ?thesis
    using parsed_identifiers_distinct[of example_runtime "[header_row, row_taro, row_blank_owner, row_jiro]"]
    by simp
qed

section \<open>Effects of the building blocks\<close>

lemma trace_emit: "trace (emit e s) = trace s @ [e]"
  by (simp add: emit_def)

lemma emit_fields:
  "customers_item (emit e s) = customers_item s"
  "spreadsheetId (emit e s) = spreadsheetId s"
  "apiKey (emit e s) = apiKey s"
  by (simp_all add: emit_def)

lemma fetchFromGoogleSheets_trace:
  assumes "fetchFromGoogleSheets w s = (r, s')"
  shows "\<exists>seg. trace s' = trace s @ seg \<and> seg \<noteq> [] \<and> (\<forall>e \<in> set seg. is_http e)"
proof -
  let ?a = "Http (GET (spreadsheets_base @ trim (spreadsheetId s) @ ''?key='' @ apiKey s))"
  let ?b = "Http (GET (spreadsheets_base @ trim (spreadsheetId s) @ ''/values/'' @ sheetName_encoded @ ''?key='' @ apiKey s))"
  have "trace s' = trace s @ [?a] \<or> trace s' = trace s @ [?a, ?b]"
    using assms
    by (auto simp: fetchFromGoogleSheets_def fetch_def Let_def trace_emit
             split: http_result.splits json.splits if_splits)
  then show ?thesis by auto
qed

lemma fetchFromGoogleSheets_fields:
  assumes "fetchFromGoogleSheets w s = (r, s')"
  shows "customers_item s' = customers_item s" "spreadsheetId s' = spreadsheetId s" "apiKey s' = apiKey s"
  using assms
  by (auto simp: fetchFromGoogleSheets_def fetch_def Let_def emit_fields
           split: http_result.splits json.splits if_splits)

lemma trace_begin_attempt: "trace (begin_attempt w a s) = trace s @ [Console_attempt a]"
  by (simp add: begin_attempt_def Date_now_def Let_def trace_emit)

lemma begin_attempt_fields:
  "customers_item (begin_attempt w a s) = customers_item s"
  "spreadsheetId (begin_attempt w a s) = spreadsheetId s"
  "apiKey (begin_attempt w a s) = apiKey s"
  by (simp_all add: begin_attempt_def Date_now_def Let_def emit_fields)

lemma trace_sleep: "trace (sleep d s) = trace s @ [Sleep d]"
  by (simp add: sleep_def trace_emit)

lemma sleep_fields:
  "customers_item (sleep d s) = customers_item s"
  "spreadsheetId (sleep d s) = spreadsheetId s"
  "apiKey (sleep d s) = apiKey s"
  by (simp_all add: sleep_def emit_fields)

lemma throttle_trace:
  "trace (throttle w s) = trace s \<or> (\<exists>d. trace (throttle w s) = trace s @ [Sleep d])"
  by (simp add: throttle_def Date_now_def Let_def trace_sleep)

lemma throttle_fields:
  "customers_item (throttle w s) = customers_item s"
  "spreadsheetId (throttle w s) = spreadsheetId s"
  "apiKey (throttle w s) = apiKey s"
  by (simp_all add: throttle_def Date_now_def Let_def sleep_fields)

lemma saveLocalCustomers_fields:
  "trace (saveLocalCustomers w d s) = trace s"
  "spreadsheetId (saveLocalCustomers w d s) = spreadsheetId s"
  "apiKey (saveLocalCustomers w d s) = apiKey s"
  by (simp_all add: saveLocalCustomers_def)

section \<open>One turn of the retry loop\<close>

lemma retry_loop_success:
  "a \<le> MAX_RETRIES \<Longrightarrow> fetchFromGoogleSheets w (begin_attempt w a s) = (Inr data, s1)
   \<Longrightarrow> retry_loop w a s = (Inr data, s1)"
  by (subst retry_loop.simps) simp

lemma retry_loop_rate_limited:
  "a \<le> MAX_RETRIES \<Longrightarrow> fetchFromGoogleSheets w (begin_attempt w a s) = (Inl (Error m), s1)
   \<Longrightarrow> is_rate_limit m
   \<Longrightarrow> retry_loop w a s =
       retry_loop w (a + 1) (sleep (backoff_delay a) (emit (Console_failed a (Error m)) s1))"
  by (subst retry_loop.simps) (simp add: Let_def)

lemma retry_loop_other_failure:
  "a < MAX_RETRIES \<Longrightarrow> fetchFromGoogleSheets w (begin_attempt w a s) = (Inl (Error m), s1)
   \<Longrightarrow> \<not> is_rate_limit m
   \<Longrightarrow> retry_loop w a s = (Inl (Error m), emit (Console_failed a (Error m)) s1)"
  by (subst retry_loop.simps) (simp add: Let_def)

lemma retry_loop_last_failure:
  "fetchFromGoogleSheets w (begin_attempt w MAX_RETRIES s) = (Inl (Error m), s1)
   \<Longrightarrow> \<not> is_rate_limit m
   \<Longrightarrow> retry_loop w MAX_RETRIES s =
       (Inr (getLocalCustomers s1), emit (Console_failed MAX_RETRIES (Error m)) s1)"
  by (subst retry_loop.simps) (simp add: Let_def getLocalCustomers_def emit_fields)

lemma retry_loop_exhausted:
  "MAX_RETRIES < a \<Longrightarrow> retry_loop w a s = (Inl (Error max_retries_message), s)"
  by (subst retry_loop.simps) simp

section \<open>The trace of a fetch cycle\<close>

lemma backoff_respected_skip:
  "\<forall>e \<in> set xs. is_http e \<Longrightarrow> backoff_respected (xs @ ys) = backoff_respected ys"
proof (induction xs)
  case Nil
  then show ?case by simp
next
  case (Cons e xs)
  then show ?case by (cases e) simp_all
qed

lemma attempt_count_http: "\<forall>e \<in> set xs. is_http e \<Longrightarrow> attempt_count (xs @ ys) = attempt_count ys"
proof (induction xs)
  case Nil
  then show ?case by simp
next
  case (Cons e xs)
  then show ?case by (cases e) (simp_all add: attempt_count_def)
qed

lemma http_count_pos: "seg \<noteq> [] \<Longrightarrow> \<forall>e \<in> set seg. is_http e \<Longrightarrow> 0 < http_count seg"
  by (cases seg) (simp_all add: http_count_def)

lemma http_count_append: "http_count (xs @ ys) = http_count xs + http_count ys"
  by (simp add: http_count_def)

lemma backoff_delay_value: "backoff_delay a = 2000 * 2 ^ (a - 1)"
  by (simp add: backoff_delay_def RETRY_DELAY_def)

lemma retry_loop_trace:
  "retry_loop w a s = (r, s') \<Longrightarrow>
     (\<exists>seg. trace s' = trace s @ seg \<and> loop_segment a seg)
     \<and> customers_item s' = customers_item s \<and> spreadsheetId s' = spreadsheetId s \<and> apiKey s' = apiKey s"
proof (induction w a s arbitrary: r s' rule: retry_loop.induct)
  case (1 w a s)
  show ?case
  proof (cases "a \<le> MAX_RETRIES")
    case False
    then have "retry_loop w a s = (Inl (Error max_retries_message), s)"
      by (simp add: retry_loop_exhausted)
    with "1.prems" have "s' = s" by simp
    moreover have "loop_segment a []" using False by (simp add: loop_segment_def attempt_count_def)
    ultimately show ?thesis by simp
  next
    case True
    obtain r1 s1 where f: "fetchFromGoogleSheets w (begin_attempt w a s) = (r1, s1)"
      by (cases "fetchFromGoogleSheets w (begin_attempt w a s)")
    from fetchFromGoogleSheets_trace[OF f] obtain hs where
      hs: "trace s1 = trace s @ Console_attempt a # hs" "hs \<noteq> []" "\<forall>e \<in> set hs. is_http e"
      by (auto simp: trace_begin_attempt)
    have fields1: "customers_item s1 = customers_item s" "spreadsheetId s1 = spreadsheetId s" "apiKey s1 = apiKey s"
      using fetchFromGoogleSheets_fields[OF f] by (simp_all add: begin_attempt_fields)
    have hpos: "0 < http_count hs" using hs by (simp add: http_count_pos)
    show ?thesis
    proof (cases r1)
      case (Inr data)
      with f True "1.prems" have "s' = s1" by (simp add: retry_loop_success)
      moreover have "loop_segment a (Console_attempt a # hs)"
        using hs True hpos backoff_respected_skip[of hs "[]"] attempt_count_http[of hs "[]"]
        by (simp add: loop_segment_def attempt_count_def)
      ultimately show ?thesis using hs fields1 by auto
    next
      case (Inl e)
      obtain m where e: "e = Error m" by (cases e)
      let ?s2 = "emit (Console_failed a (Error m)) s1"
      show ?thesis
      proof (cases "is_rate_limit m")
        case rl: True
        let ?s3 = "sleep (backoff_delay a) ?s2"
        have eq: "retry_loop w a s = retry_loop w (a + 1) ?s3"
          using retry_loop_rate_limited[OF True] f Inl e rl by simp
        with "1.prems" have rec: "retry_loop w (a + 1) ?s3 = (r, s')" by simp
        have ih: "(\<exists>seg. trace s' = trace ?s3 @ seg \<and> loop_segment (a + 1) seg)
          \<and> customers_item s' = customers_item ?s3 \<and> spreadsheetId s' = spreadsheetId ?s3 \<and> apiKey s' = apiKey ?s3"
          using "1.IH"[OF True f[symmetric] _ _ refl rl rec] Inl e by simp
        then obtain seg where seg: "trace s' = trace ?s3 @ seg" "loop_segment (a + 1) seg" by blast
        let ?tail = "Console_failed a (Error m) # Sleep (backoff_delay a) # seg"
        have "backoff_respected ?tail"
          using seg(2) rl by (cases seg) (simp_all add: loop_segment_def backoff_delay_value)
        then have b: "backoff_respected (Console_attempt a # hs @ ?tail)"
          using hs(3) by (simp add: backoff_respected_skip)
        have "attempt_count ?tail = attempt_count seg" by (simp add: attempt_count_def)
        then have c: "attempt_count (Console_attempt a # hs @ ?tail) \<le> Suc MAX_RETRIES - a"
          using seg(2) True attempt_count_http[OF hs(3), of ?tail]
          by (simp add: loop_segment_def attempt_count_def) arith
        have "loop_segment a (Console_attempt a # hs @ ?tail)"
          using b c hpos by (simp add: loop_segment_def http_count_append)
        moreover have "trace s' = trace s @ Console_attempt a # hs @ ?tail"
          using seg(1) hs(1) by (simp add: trace_sleep trace_emit)
        ultimately show ?thesis using ih fields1 by (auto simp: sleep_fields emit_fields)
      next
        case nrl: False
        have "s' = ?s2"
        proof (cases "a = MAX_RETRIES")
          case True
          with f Inl e nrl "1.prems" show ?thesis using retry_loop_last_failure[of w s m s1] by simp
        next
          case False
          with True have "a < MAX_RETRIES" by simp
          with f Inl e nrl "1.prems" show ?thesis using retry_loop_other_failure[of a w s m s1] by simp
        qed
        moreover have "loop_segment a (Console_attempt a # hs @ [Console_failed a (Error m)])"
          using hs True hpos nrl backoff_respected_skip[of hs "[Console_failed a (Error m)]"]
            attempt_count_http[of hs "[Console_failed a (Error m)]"]
          by (simp add: loop_segment_def attempt_count_def http_count_append)
        ultimately show ?thesis using hs fields1 by (auto simp: trace_emit emit_fields)
      qed
    qed
  qed
qed

lemma with_retry_trace:
  assumes "fetchFromGoogleSheetsWithRetry w s = (r, s')"
  shows "\<exists>pre seg. trace s' = trace s @ pre @ seg \<and> (pre = [] \<or> (\<exists>d. pre = [Sleep d])) \<and> loop_segment 1 seg"
    and "customers_item s' = customers_item s" and "spreadsheetId s' = spreadsheetId s" and "apiKey s' = apiKey s"
proof -
  from assms have rl: "retry_loop w 1 (throttle w s) = (r, s')"
    by (simp add: fetchFromGoogleSheetsWithRetry_def)
  from retry_loop_trace[OF rl] obtain seg where
    seg: "trace s' = trace (throttle w s) @ seg" "loop_segment 1 seg" by blast
  from throttle_trace[of w s] obtain pre where
    pre: "trace (throttle w s) = trace s @ pre" "pre = [] \<or> (\<exists>d. pre = [Sleep d])" by auto
  from seg pre show "\<exists>pre seg. trace s' = trace s @ pre @ seg \<and> (pre = [] \<or> (\<exists>d. pre = [Sleep d])) \<and> loop_segment 1 seg"
    by auto
  from retry_loop_trace[OF rl] show "customers_item s' = customers_item s" "spreadsheetId s' = spreadsheetId s" "apiKey s' = apiKey s"
    by (simp_all add: throttle_fields)
qed



lemma loop_segment_1:
  assumes "loop_segment 1 seg"
  shows "backoff_respected seg" "attempt_count seg \<le> 3" "0 < http_count seg"
  using assms by (cases seg; simp add: loop_segment_def MAX_RETRIES_def http_count_def)+

lemma http_count_grows:
  assumes "fetchFromGoogleSheetsWithRetry w s = (r, s')"
  shows "http_count (trace s) < http_count (trace s')"
proof -
  from with_retry_trace(1)[OF assms] obtain pre seg where
    tr: "trace s' = trace s @ pre @ seg" and seg: "loop_segment 1 seg" by blast
  then show ?thesis using loop_segment_1(3)[OF seg] by (simp add: http_count_append)
qed

section \<open>getCustomers\<close>

lemma getCustomers_configured:
  assumes "configured w s" and "fetchFromGoogleSheetsWithRetry w s = (r, s1)"
  shows "getCustomers w s =
     (case r of Inr data \<Rightarrow> (Inr data, saveLocalCustomers w data s1)
              | Inl e \<Rightarrow> (Inr (getLocalCustomers s), s1))"
proof -
  have "getLocalCustomers s1 = getLocalCustomers s"
    using with_retry_trace(2)[OF assms(2)] by (simp add: getLocalCustomers_def)
  then show ?thesis
    using assms by (auto simp: getCustomers_def Let_def split: sum.splits)
qed

lemma getCustomers_unconfigured:
  "\<not> configured w s \<Longrightarrow> getCustomers w s = fetchFromGoogleSheetsWithRetry w s"
  by (simp add: getCustomers_def)

lemma getCustomers_result:
  "fst (getCustomers w s)
   = (case fst (fetchFromGoogleSheetsWithRetry w s) of
        Inr data \<Rightarrow> Inr data
      | Inl e \<Rightarrow> if configured w s then Inr (getLocalCustomers s) else Inl e)"
proof -
  obtain r s1 where run: "fetchFromGoogleSheetsWithRetry w s = (r, s1)"
    by (cases "fetchFromGoogleSheetsWithRetry w s")
  show ?thesis
    using run by (cases "configured w s"; cases r)
      (simp_all add: getCustomers_configured[OF _ run] getCustomers_unconfigured)
qed



lemma getCustomers_frame:
  "trace (snd (getCustomers w s)) = trace (snd (fetchFromGoogleSheetsWithRetry w s))"
  "spreadsheetId (snd (getCustomers w s)) = spreadsheetId s"
  "apiKey (snd (getCustomers w s)) = apiKey s"
proof -
  obtain r s1 where run: "fetchFromGoogleSheetsWithRetry w s = (r, s1)"
    by (cases "fetchFromGoogleSheetsWithRetry w s")
  note f = with_retry_trace(3,4)[OF run]
  show "trace (snd (getCustomers w s)) = trace (snd (fetchFromGoogleSheetsWithRetry w s))"
    using run by (cases "configured w s"; cases r)
      (simp_all add: getCustomers_configured[OF _ run] getCustomers_unconfigured saveLocalCustomers_fields)
  show "spreadsheetId (snd (getCustomers w s)) = spreadsheetId s"
    using run f by (cases "configured w s"; cases r)
      (simp_all add: getCustomers_configured[OF _ run] getCustomers_unconfigured saveLocalCustomers_fields)
  show "apiKey (snd (getCustomers w s)) = apiKey s"
    using run f by (cases "configured w s"; cases r)
      (simp_all add: getCustomers_configured[OF _ run] getCustomers_unconfigured saveLocalCustomers_fields)
qed

section \<open>The example runs\<close>

lemma example_unconfigured_run:
  "fst (getCustomers (example_world ''production'' (refusing_server 404)) (example_state [] ''key1''))
     = Inl (Error ''Spreadsheet info request failed: 404'')"
  "http_count (trace (snd (getCustomers (example_world ''production'' (refusing_server 404))
     (example_state [] ''key1'')))) = 1"
  by code_simp+


lemma example_500:
  "fst (fetchFromGoogleSheets (example_world ''production'' (refusing_server 500))
          (begin_attempt (example_world ''production'' (refusing_server 500)) 1
             (throttle (example_world ''production'' (refusing_server 500)) (example_state ''sheet1'' ''key1''))))
     = Inl (Error ''Spreadsheet info request failed: 500'')"
  "\<not> is_rate_limit ''Spreadsheet info request failed: 500''"
  "configured (example_world ''production'' (refusing_server 500)) (example_state ''sheet1'' ''key1'')"
  "getLocalCustomers (example_state ''sheet1'' ''key1'') = [old_customer]"
  by code_simp+

lemma example_500_development:
  "fst (fetchFromGoogleSheets (example_world ''development'' (refusing_server 500))
          (begin_attempt (example_world ''development'' (refusing_server 500)) 1
             (throttle (example_world ''development'' (refusing_server 500)) (example_state ''sheet1'' ''key1''))))
     = Inl (Error ''Spreadsheet info request failed: 500'')"
  "fst (getCustomers (example_world ''development'' (refusing_server 500)) (example_state ''sheet1'' ''key1''))
     = Inl (Error ''Spreadsheet info request failed: 500'')"
  by code_simp+

lemma example_429:
  "all_rate_limited (example_world ''production'' (refusing_server 429)) 1 3
     (throttle (example_world ''production'' (refusing_server 429)) (example_state ''sheet1'' ''key1''))"
  "all_rate_limited (example_world ''development'' (refusing_server 429)) 1 3
     (throttle (example_world ''development'' (refusing_server 429)) (example_state ''sheet1'' ''key1''))"
  "configured (example_world ''production'' (refusing_server 429)) (example_state ''sheet1'' ''key1'')"
  "\<not> configured (example_world ''development'' (refusing_server 429)) (example_state ''sheet1'' ''key1'')"
  by code_simp+





lemma example_stale_update:
  "fst (fetchFromGoogleSheetsWithRetry (example_world ''production'' write_only_server) stale_state)
     = Inl (Error ''Spreadsheet info request failed: 500'')"
  "getLocalCustomers stale_state = [cached_jiro]"
  "cust_id cached_jiro = ''C002''"
  "fst (updateCustomerInSheets (example_world ''production'' write_only_server) cached_jiro stale_state)
     = Inr ()"
  "new_events (snd (getCustomers (example_world ''production'' write_only_server) stale_state))
     (snd (updateCustomerInSheets (example_world ''production'' write_only_server) cached_jiro stale_state))
   = [Http \<lparr> http_method = ''PUT'',
              url = ''https://sheets.googleapis.com/v4/spreadsheets/sheet1/values/A2:M2?valueInputOption=RAW&key=key1'',
              body = Some [rowData cached_jiro] \<rparr>]"
  by code_simp+

lemma example_update:
  "fst (getCustomers (example_world ''production'' (sheet_server [header_row, row_taro, row_jiro]))
          (example_state ''sheet1'' ''key1''))
     = Inr (parseSheetData example_runtime [header_row, row_taro, row_jiro])"
  "findIndex (\<lambda>c. cust_id c = cust_id (row_customer example_runtime 1 row_jiro))
     (parseSheetData example_runtime [header_row, row_taro, row_jiro]) = Some 1"
  "findIndex (\<lambda>c. cust_id c = cust_id old_customer)
     (parseSheetData example_runtime [header_row, row_taro, row_jiro]) = None"
  "put_url (example_state ''sheet1'' ''key1'') (1 + 2)
     = ''https://sheets.googleapis.com/v4/spreadsheets/sheet1/values/A3:M3?valueInputOption=RAW&key=key1''"
  by code_simp+

section \<open>The retry and back-off controller\<close>



lemma first_failure_ends_cycle:
  assumes "fst (fetchFromGoogleSheets w (begin_attempt w 1 (throttle w s))) = Inl (Error m)"
      and "\<not> is_rate_limit m"
  shows "fst (fetchFromGoogleSheetsWithRetry w s) = Inl (Error m)"
    and "attempt_count (new_events s (snd (fetchFromGoogleSheetsWithRetry w s))) = 1"
    and "last (new_events s (snd (fetchFromGoogleSheetsWithRetry w s))) = Console_failed 1 (Error m)"
proof -
  obtain s1 where f: "fetchFromGoogleSheets w (begin_attempt w 1 (throttle w s)) = (Inl (Error m), s1)"
    using assms(1) by (cases "fetchFromGoogleSheets w (begin_attempt w 1 (throttle w s))") simp
  have run: "fetchFromGoogleSheetsWithRetry w s = (Inl (Error m), emit (Console_failed 1 (Error m)) s1)"
    unfolding fetchFromGoogleSheetsWithRetry_def
    using retry_loop_other_failure[OF _ f assms(2)] by (simp add: MAX_RETRIES_def)
  then show "fst (fetchFromGoogleSheetsWithRetry w s) = Inl (Error m)"
    by simp
  from fetchFromGoogleSheets_trace[OF f] obtain hs where
    hs: "trace s1 = trace (throttle w s) @ Console_attempt 1 # hs" "\<forall>e \<in> set hs. is_http e"
    by (auto simp: trace_begin_attempt)
  from throttle_trace[of w s] obtain pre where
    pre: "trace (throttle w s) = trace s @ pre" "attempt_count pre = 0"
    by (auto simp: attempt_count_def)
  have ne: "new_events s (emit (Console_failed 1 (Error m)) s1)
        = pre @ Console_attempt 1 # hs @ [Console_failed 1 (Error m)]"
    using hs pre by (simp add: new_events_def trace_emit)
  moreover have "attempt_count (pre @ Console_attempt 1 # hs @ [Console_failed 1 (Error m)]) = 1"
    using pre(2) attempt_count_http[OF hs(2), of "[Console_failed 1 (Error m)]"]
    by (simp add: attempt_count_def)
  ultimately show "attempt_count (new_events s (snd (fetchFromGoogleSheetsWithRetry w s))) = 1"
    using run by simp
  show "last (new_events s (snd (fetchFromGoogleSheetsWithRetry w s))) = Console_failed 1 (Error m)"
    using run ne by simp
qed

text \<open>
  C5, as the claim states it, fails: outside production the error of the first attempt is
  thrown to the caller of \<open>getCustomers\<close>, although the cache holds a record.
\<close>

theorem other_failure_escapes_counterexample:
  "fst (fetchFromGoogleSheets (example_world ''development'' (refusing_server 500))
          (begin_attempt (example_world ''development'' (refusing_server 500)) 1
             (throttle (example_world ''development'' (refusing_server 500)) (example_state ''sheet1'' ''key1''))))
     = Inl (Error ''Spreadsheet info request failed: 500'')
   \<and> \<not> is_rate_limit ''Spreadsheet info request failed: 500''
   \<and> getLocalCustomers (example_state ''sheet1'' ''key1'') = [old_customer]
   \<and> fst (getCustomers (example_world ''development'' (refusing_server 500)) (example_state ''sheet1'' ''key1''))
     = Inl (Error ''Spreadsheet info request failed: 500'')"
  using example_500_development example_500(2,4) by simp

text \<open>
  C5, amended. When the first attempt of a fetch cycle fails with an error that is not of the
  rate-limit class, exactly one attempt is made and the log of its failure is the last thing
  the cycle does (no wait, no further request); \<open>getCustomers\<close> then returns the cached
  record set (empty when there is none) if the service runs in production with a non-empty
  source identifier and credential, and throws that error otherwise.
\<close>

theorem other_failure_not_retried:
  assumes "fst (fetchFromGoogleSheets w (begin_attempt w 1 (throttle w s))) = Inl (Error m)"
      and "\<not> is_rate_limit m"
  shows "attempt_count (new_events s (snd (getCustomers w s))) = 1
       \<and> last (new_events s (snd (getCustomers w s))) = Console_failed 1 (Error m)
       \<and> fst (getCustomers w s)
         = (if configured w s then Inr (getLocalCustomers s) else Inl (Error m))"
proof -
  obtain r s1 where run: "fetchFromGoogleSheetsWithRetry w s = (r, s1)"
    by (cases "fetchFromGoogleSheetsWithRetry w s")
  have r: "r = Inl (Error m)"
    using first_failure_ends_cycle(1)[OF assms] run by simp
  have "new_events s (snd (getCustomers w s)) = new_events s (snd (fetchFromGoogleSheetsWithRetry w s))"
    by (simp add: new_events_def getCustomers_frame(1))
  then have "attempt_count (new_events s (snd (getCustomers w s))) = 1"
    and "last (new_events s (snd (getCustomers w s))) = Console_failed 1 (Error m)"
    using first_failure_ends_cycle(2,3)[OF assms] by simp_all
  moreover have "fst (getCustomers w s)
         = (if configured w s then Inr (getLocalCustomers s) else Inl (Error m))"
    using run r by (cases "configured w s")
      (simp_all add: getCustomers_configured[OF _ run] getCustomers_unconfigured)
  ultimately show ?thesis
    by simp
qed

theorem other_failure_not_retried_witness:
  "\<not> is_rate_limit ''Spreadsheet info request failed: 500''
   \<and> attempt_count (new_events (example_state ''sheet1'' ''key1'')
        (snd (getCustomers (example_world ''production'' (refusing_server 500)) (example_state ''sheet1'' ''key1'')))) = 1
   \<and> fst (getCustomers (example_world ''production'' (refusing_server 500)) (example_state ''sheet1'' ''key1''))
     = Inr [old_customer]"
  using other_failure_not_retried[OF example_500(1,2)] example_500(2,3,4)
  by simp

lemma all_rate_limited_exhausts:
  "all_rate_limited w a k s \<Longrightarrow> a + k = Suc MAX_RETRIES
   \<Longrightarrow> fst (retry_loop w a s) = Inl (Error max_retries_message)"
proof (induction k arbitrary: a s)
  case 0
  then show ?case
    by (simp add: retry_loop_exhausted)
next
  case (Suc k)
  obtain r s1 where f: "fetchFromGoogleSheets w (begin_attempt w a s) = (r, s1)"
    by (cases "fetchFromGoogleSheets w (begin_attempt w a s)")
  from Suc.prems(1) f obtain m where m: "r = Inl (Error m)" "is_rate_limit m"
    and rest: "all_rate_limited w (a + 1) k (sleep (backoff_delay a) (emit (Console_failed a (Error m)) s1))"
    by (auto split: sum.splits error.splits)
  have "a \<le> MAX_RETRIES"
    using Suc.prems(2) by simp
  then have "retry_loop w a s
      = retry_loop w (a + 1) (sleep (backoff_delay a) (emit (Console_failed a (Error m)) s1))"
    using f m by (simp add: retry_loop_rate_limited)
  moreover have "a + 1 + k = Suc MAX_RETRIES"
    using Suc.prems(2) by simp
  ultimately show ?case
    using Suc.IH[OF rest] by simp
qed

text \<open>
  C6, as the claim states it, fails: outside production, three rate-limit failures end in
  the error "maximum number of retries reached", thrown to the caller of \<open>getCustomers\<close>.
\<close>

theorem exhausted_escapes_counterexample:
  "all_rate_limited (example_world ''development'' (refusing_server 429)) 1 3
     (throttle (example_world ''development'' (refusing_server 429)) (example_state ''sheet1'' ''key1''))
   \<and> getLocalCustomers (example_state ''sheet1'' ''key1'') = [old_customer]
   \<and> fst (getCustomers (example_world ''development'' (refusing_server 429)) (example_state ''sheet1'' ''key1''))
     = Inl (Error max_retries_message)"
proof -
  have "fst (retry_loop (example_world ''development'' (refusing_server 429)) 1
          (throttle (example_world ''development'' (refusing_server 429)) (example_state ''sheet1'' ''key1'')))
        = Inl (Error max_retries_message)"
    using all_rate_limited_exhausts[OF example_429(2)] by (simp add: MAX_RETRIES_def)
  then show ?thesis
    using example_429(2,4) example_500(4)
    by (simp add: getCustomers_unconfigured fetchFromGoogleSheetsWithRetry_def)
qed

text \<open>
  C6, amended. When all 3 attempts fail with errors of the rate-limit class and the service
  runs in production with a non-empty source identifier and credential, \<open>getCustomers\<close>
  returns the contents of the local cache (the empty sequence when the cache is empty) and
  throws nothing; the cache is left as it was.
\<close>

theorem exhausted_falls_back_when_configured:
  assumes "all_rate_limited w 1 3 (throttle w s)"
      and "configured w s"
  shows "fst (getCustomers w s) = Inr (getLocalCustomers s)
       \<and> customers_item (snd (getCustomers w s)) = customers_item s"
proof -
  obtain r s1 where run: "fetchFromGoogleSheetsWithRetry w s = (r, s1)"
    by (cases "fetchFromGoogleSheetsWithRetry w s")
  have "fst (retry_loop w 1 (throttle w s)) = Inl (Error max_retries_message)"
    using all_rate_limited_exhausts[OF assms(1)] by (simp add: MAX_RETRIES_def)
  then have r: "r = Inl (Error max_retries_message)"
    using run by (simp add: fetchFromGoogleSheetsWithRetry_def)
  show ?thesis
    using run r with_retry_trace(2)[OF run]
    by (simp add: getCustomers_configured[OF assms(2) run])
qed

theorem exhausted_falls_back_when_configured_witness:
  "all_rate_limited (example_world ''production'' (refusing_server 429)) 1 3
     (throttle (example_world ''production'' (refusing_server 429)) (example_state ''sheet1'' ''key1''))
   \<and> fst (getCustomers (example_world ''production'' (refusing_server 429)) (example_state ''sheet1'' ''key1''))
     = Inr [old_customer]
   \<and> customers_item (snd (getCustomers (example_world ''production'' (refusing_server 429))
        (example_state ''sheet1'' ''key1''))) = Some (Parsed [old_customer])"
  using exhausted_falls_back_when_configured[OF example_429(1,3)] example_429(1) example_500(4)
  by (simp add: example_state_def)

section \<open>The reconciler\<close>

text \<open>
  C3, as the claim states it, fails: in production with an empty source identifier,
  \<open>getCustomers\<close> sends an HTTP request and, the server answering 404, throws the error;
  no empty result is put in its place.
\<close>

theorem unconfigured_fetch_counterexample:
  "spreadsheetId (example_state [] ''key1'') = []
   \<and> fst (getCustomers (example_world ''production'' (refusing_server 404)) (example_state [] ''key1''))
     = Inl (Error ''Spreadsheet info request failed: 404'')
   \<and> http_count (trace (snd (getCustomers (example_world ''production'' (refusing_server 404))
       (example_state [] ''key1'')))) = 1"
  using example_unconfigured_run by (simp add: example_state_def)

text \<open>
  C3, amended. Whenever the source identifier or the credential is empty, \<open>getCustomers\<close>
  is the retry-wrapped fetch and nothing more: at least one HTTP request is sent, the outcome
  of the fetch, records or error, is the outcome of \<open>getCustomers\<close>, and the cache is left
  as it was.
\<close>

theorem unconfigured_still_fetches:
  assumes "spreadsheetId s = [] \<or> apiKey s = []"
  shows "getCustomers w s = fetchFromGoogleSheetsWithRetry w s
     \<and> http_count (trace s) < http_count (trace (snd (getCustomers w s)))
     \<and> customers_item (snd (getCustomers w s)) = customers_item s"
proof -
  have g: "getCustomers w s = fetchFromGoogleSheetsWithRetry w s"
    using assms by (auto simp: getCustomers_def configured_def)
  obtain r s' where run: "fetchFromGoogleSheetsWithRetry w s = (r, s')"
    by (cases "fetchFromGoogleSheetsWithRetry w s")
  show ?thesis using g run http_count_grows[OF run] with_retry_trace(2)[OF run] by simp
qed

theorem unconfigured_still_fetches_witness:
  "spreadsheetId (example_state [] ''key1'') = []
   \<and> getCustomers (example_world ''production'' (refusing_server 404)) (example_state [] ''key1'')
     = fetchFromGoogleSheetsWithRetry (example_world ''production'' (refusing_server 404)) (example_state [] ''key1'')
   \<and> http_count (trace (example_state [] ''key1''))
     < http_count (trace (snd (getCustomers (example_world ''production'' (refusing_server 404))
         (example_state [] ''key1''))))
   \<and> customers_item (snd (getCustomers (example_world ''production'' (refusing_server 404))
         (example_state [] ''key1''))) = Some (Parsed [old_customer])"
proof -
  have h: "spreadsheetId (example_state [] ''key1'') = [] \<or> apiKey (example_state [] ''key1'') = []"
    by (simp add: example_state_def)
  have item: "customers_item (example_state [] ''key1'') = Some (Parsed [old_customer])"
    by (simp add: example_state_def)
  have sid: "spreadsheetId (example_state [] ''key1'') = []"
    by (simp add: example_state_def)
  note t = unconfigured_still_fetches[OF h, of "example_world ''production'' (refusing_server 404)"]
  show ?thesis
    using t unfolding item sid by blast
qed




section \<open>Updating a row of the sheet\<close>

lemma findIndex_Some:
  "findIndex p xs = Some i \<Longrightarrow> i < length xs \<and> p (xs ! i) \<and> (\<forall>j < i. \<not> p (xs ! j))"
proof (induction xs arbitrary: i)
  case Nil
  then show ?case by simp
next
  case (Cons x xs)
  show ?case
  proof (cases "p x")
    case True
    with Cons.prems show ?thesis by simp
  next
    case False
    with Cons.prems obtain k where k: "findIndex p xs = Some k" "i = Suc k"
      by auto
    from Cons.IH[OF k(1)] False k(2) show ?thesis
      by (auto simp: less_Suc_eq_0_disj)
  qed
qed

lemma findIndex_None: "findIndex p xs = None \<Longrightarrow> \<forall>x \<in> set xs. \<not> p x"
  by (induction xs) (auto split: if_splits)

lemma length_rowData: "length (rowData customer) = 13"
  by (simp add: rowData_def)

lemma updateCustomerInSheets_found:
  assumes "getCustomers w s = (Inr customers, s1)"
      and "findIndex (\<lambda>c. cust_id c = cust_id customer) customers = Some i"
  shows "new_events s1 (snd (updateCustomerInSheets w customer s))
         = [Http \<lparr> http_method = ''PUT'', url = put_url s (i + 2), body = Some [rowData customer] \<rparr>]"
proof -
  have u: "put_url s1 (i + 2) = put_url s (i + 2)"
    using getCustomers_frame(2,3)[of w s] assms(1) by (simp add: put_url_def)
  show ?thesis
    using assms u
    by (simp add: updateCustomerInSheets_def fetch_def Let_def new_events_def trace_emit
          split: http_result.splits json.splits)
qed

lemma updateCustomerInSheets_missing:
  assumes "getCustomers w s = (Inr customers, s1)"
      and "findIndex (\<lambda>c. cust_id c = cust_id customer) customers = None"
  shows "updateCustomerInSheets w customer s = (Inl (Error not_found_message), s1)"
  using assms by (simp add: updateCustomerInSheets_def)

lemma updateCustomer_production:
  assumes "NODE_ENV w = ''production''"
      and "findIndex (\<lambda>c. cust_id c = cust_id c') (getLocalCustomers s) = Some i"
  shows "updateCustomer w c' s
       = updateCustomerInSheets w c' (saveLocalCustomers w ((getLocalCustomers s)[i := c']) s)"
  using assms by (simp add: updateCustomer_def Let_def)

text \<open>
  C8, as the claim states it, fails: the row is looked up in what \<open>getCustomers\<close> returns,
  and that is the local cache when the fetch fails in production. Here every read is refused
  with status 500 and the cache holds the record \<open>C002\<close> alone: without any fetched sequence
  the update succeeds, with a PUT to row 2.
\<close>

theorem update_from_stale_cache_counterexample:
  "fst (fetchFromGoogleSheetsWithRetry (example_world ''production'' write_only_server) stale_state)
     = Inl (Error ''Spreadsheet info request failed: 500'')
   \<and> getLocalCustomers stale_state = [cached_jiro]
   \<and> cust_id cached_jiro = ''C002''
   \<and> fst (updateCustomerInSheets (example_world ''production'' write_only_server) cached_jiro stale_state)
     = Inr ()
   \<and> new_events (snd (getCustomers (example_world ''production'' write_only_server) stale_state))
       (snd (updateCustomerInSheets (example_world ''production'' write_only_server) cached_jiro stale_state))
     = [Http \<lparr> http_method = ''PUT'',
                url = ''https://sheets.googleapis.com/v4/spreadsheets/sheet1/values/A2:M2?valueInputOption=RAW&key=key1'',
                body = Some [rowData cached_jiro] \<rparr>]"
  using example_stale_update by simp

text \<open>
  C8, amended. \<open>updateCustomerInSheets\<close> first calls \<open>getCustomers\<close>, which sends at least one
  HTTP request of its own on every update and returns the record set its fetch cycle yields
  or, when that cycle ends in an error, the local cache if the service runs in production
  with a non-empty source identifier and credential, and the error otherwise. If
  \<open>getCustomers\<close> throws, so does the update. If the record (by identifier) is not in the
  sequence \<open>getCustomers\<close> returned, the update fails with the error "customer not found" and
  sends nothing. If the record is found there at position \<open>i\<close> (from 0), the update sends
  exactly one request, an HTTP PUT for the range \<open>A(i+2):M(i+2)\<close> whose body is a single row
  of 13 values.
\<close>

theorem update_row_located_by_getCustomers:
  "http_count (trace s) < http_count (trace (snd (getCustomers w s)))
   \<and> fst (getCustomers w s)
     = (case fst (fetchFromGoogleSheetsWithRetry w s) of
          Inr data \<Rightarrow> Inr data
        | Inl e \<Rightarrow> if configured w s then Inr (getLocalCustomers s) else Inl e)
   \<and> (case fst (getCustomers w s) of
      Inl e \<Rightarrow> updateCustomerInSheets w customer s = (Inl e, snd (getCustomers w s))
    | Inr customers \<Rightarrow>
        (case findIndex (\<lambda>c. cust_id c = cust_id customer) customers of
           None \<Rightarrow>
             updateCustomerInSheets w customer s
               = (Inl (Error not_found_message), snd (getCustomers w s))
         | Some i \<Rightarrow>
             new_events (snd (getCustomers w s)) (snd (updateCustomerInSheets w customer s))
               = [Http \<lparr> http_method = ''PUT'', url = put_url s (i + 2),
                          body = Some [rowData customer] \<rparr>]
             \<and> length (rowData customer) = 13))"
proof -
  obtain r s1 where g: "getCustomers w s = (r, s1)"
    by (cases "getCustomers w s")
  obtain r0 s0 where run: "fetchFromGoogleSheetsWithRetry w s = (r0, s0)"
    by (cases "fetchFromGoogleSheetsWithRetry w s")
  have fresh: "http_count (trace s) < http_count (trace (snd (getCustomers w s)))"
    using http_count_grows[OF run] run by (simp add: getCustomers_frame(1))
  note res = getCustomers_result[of w s]
  have located: "(case fst (getCustomers w s) of
      Inl e \<Rightarrow> updateCustomerInSheets w customer s = (Inl e, snd (getCustomers w s))
    | Inr customers \<Rightarrow>
        (case findIndex (\<lambda>c. cust_id c = cust_id customer) customers of
           None \<Rightarrow>
             updateCustomerInSheets w customer s
               = (Inl (Error not_found_message), snd (getCustomers w s))
         | Some i \<Rightarrow>
             new_events (snd (getCustomers w s)) (snd (updateCustomerInSheets w customer s))
               = [Http \<lparr> http_method = ''PUT'', url = put_url s (i + 2),
                          body = Some [rowData customer] \<rparr>]
             \<and> length (rowData customer) = 13))"
  proof (cases r)
    case (Inl e)
    then show ?thesis
      using g by (simp add: updateCustomerInSheets_def)
  next
    case (Inr customers)
    then have g': "getCustomers w s = (Inr customers, s1)"
      using g by simp
    show ?thesis
    proof (cases "findIndex (\<lambda>c. cust_id c = cust_id customer) customers")
      case None
      then show ?thesis
        using g' updateCustomerInSheets_missing[OF g' None] by simp
    next
      case (Some i)
      then show ?thesis
        using g' updateCustomerInSheets_found[OF g' Some] by (simp add: length_rowData)
    qed
  qed
  from fresh res located show ?thesis
    by (intro conjI)
qed

theorem update_row_located_by_getCustomers_witness:
  "new_events
     (snd (getCustomers (example_world ''production'' (sheet_server [header_row, row_taro, row_jiro]))
             (example_state ''sheet1'' ''key1'')))
     (snd (updateCustomerInSheets (example_world ''production'' (sheet_server [header_row, row_taro, row_jiro]))
             (row_customer example_runtime 1 row_jiro) (example_state ''sheet1'' ''key1'')))
   = [Http \<lparr> http_method = ''PUT'',
              url = ''https://sheets.googleapis.com/v4/spreadsheets/sheet1/values/A3:M3?valueInputOption=RAW&key=key1'',
              body = Some [rowData (row_customer example_runtime 1 row_jiro)] \<rparr>]
   \<and> fst (updateCustomerInSheets (example_world ''production'' (sheet_server [header_row, row_taro, row_jiro]))
             old_customer (example_state ''sheet1'' ''key1''))
     = Inl (Error not_found_message)"
proof -
  note a = update_row_located_by_getCustomers[where w = "example_world ''production'' (sheet_server [header_row, row_taro, row_jiro])"
      and s = "example_state ''sheet1'' ''key1''" and customer = "row_customer example_runtime 1 row_jiro"]
  note b = update_row_located_by_getCustomers[where w = "example_world ''production'' (sheet_server [header_row, row_taro, row_jiro])"
      and s = "example_state ''sheet1'' ''key1''" and customer = old_customer]
  from a have a': "(case fst (getCustomers (example_world ''production'' (sheet_server [header_row, row_taro, row_jiro]))
             (example_state ''sheet1'' ''key1'')) of
      Inl e \<Rightarrow> True
    | Inr customers \<Rightarrow>
        (case findIndex (\<lambda>c. cust_id c = cust_id (row_customer example_runtime 1 row_jiro)) customers of
           None \<Rightarrow> True
         | Some i \<Rightarrow>
             new_events (snd (getCustomers (example_world ''production'' (sheet_server [header_row, row_taro, row_jiro]))
                 (example_state ''sheet1'' ''key1'')))
               (snd (updateCustomerInSheets (example_world ''production'' (sheet_server [header_row, row_taro, row_jiro]))
                 (row_customer example_runtime 1 row_jiro) (example_state ''sheet1'' ''key1'')))
               = [Http \<lparr> http_method = ''PUT'', url = put_url (example_state ''sheet1'' ''key1'') (i + 2),
                          body = Some [rowData (row_customer example_runtime 1 row_jiro)] \<rparr>]))"
    by (auto split: sum.splits option.splits)
  from b have b': "(case fst (getCustomers (example_world ''production'' (sheet_server [header_row, row_taro, row_jiro]))
             (example_state ''sheet1'' ''key1'')) of
      Inl e \<Rightarrow> True
    | Inr customers \<Rightarrow>
        (case findIndex (\<lambda>c. cust_id c = cust_id old_customer) customers of
           None \<Rightarrow>
             fst (updateCustomerInSheets (example_world ''production'' (sheet_server [header_row, row_taro, row_jiro]))
                 old_customer (example_state ''sheet1'' ''key1''))
               = Inl (Error not_found_message)
         | Some i \<Rightarrow> True))"
    by (auto split: sum.splits option.splits)
  show ?thesis
    using a' b' example_update by simp
qed

section \<open>Uploading a photo\<close>

lemma failure_result: "\<not> success (failure m) \<and> error (failure m) = Some m"
  by (simp add: failure_def)

lemma file_too_large_message_nonempty: "file_too_large_message \<noteq> []"
  by (simp add: file_too_large_message_def)

lemma too_many_photos_message_nonempty: "too_many_photos_message \<noteq> []"
  by (simp add: too_many_photos_message_def)

text \<open>
  C10. An upload of a file larger than 5 * 1024 * 1024 bytes, or for a customer who already
  has 50 or more stored photos, returns a result with \<open>success = false\<close> and a non-empty
  error message, and leaves the stored photos as they were.
\<close>

theorem rejected_upload_changes_nothing:
  assumes "file_size file > 5 * 1024 * 1024 \<or> length (getPhotosByCustomerId st cid) \<ge> 50"
  shows "\<not> success (fst (uploadPhoto b cid file descr st))
       \<and> (\<exists>m. error (fst (uploadPhoto b cid file descr st)) = Some m \<and> m \<noteq> [])
       \<and> snd (uploadPhoto b cid file descr st) = st"
proof (cases "file_size file > MAX_FILE_SIZE")
  case True
  then have "uploadPhoto b cid file descr st = (failure file_too_large_message, st)"
    by (simp add: uploadPhoto_def)
  then show ?thesis
    by (simp add: failure_result file_too_large_message_nonempty)
next
  case False
  with assms have "length (getPhotosByCustomerId st cid) \<ge> MAX_PHOTOS_PER_CUSTOMER"
    by (simp add: MAX_FILE_SIZE_def MAX_PHOTOS_PER_CUSTOMER_def)
  with False have "uploadPhoto b cid file descr st = (failure too_many_photos_message, st)"
    by (simp add: uploadPhoto_def Let_def)
  then show ?thesis
    by (simp add: failure_result too_many_photos_message_nonempty)
qed

theorem rejected_upload_changes_nothing_witness:
  "5 * 1024 * 1024 < file_size \<lparr> file_name = ''a.png'', file_size = 5242881 \<rparr>
   \<and> \<not> success (fst (uploadPhoto example_browser ''C001''
         \<lparr> file_name = ''a.png'', file_size = 5242881 \<rparr> None None))
   \<and> error (fst (uploadPhoto example_browser ''C001''
         \<lparr> file_name = ''a.png'', file_size = 5242881 \<rparr> None None)) = Some file_too_large_message
   \<and> snd (uploadPhoto example_browser ''C001''
         \<lparr> file_name = ''a.png'', file_size = 5242881 \<rparr> None None) = None"
proof -
  have h: "5 * 1024 * 1024 < file_size \<lparr> file_name = ''a.png'', file_size = 5242881 \<rparr>
           \<or> 50 \<le> length (getPhotosByCustomerId None ''C001'')"
    by simp
  have "error (fst (uploadPhoto example_browser ''C001''
         \<lparr> file_name = ''a.png'', file_size = 5242881 \<rparr> None None)) = Some file_too_large_message"
    by (simp add: uploadPhoto_def MAX_FILE_SIZE_def failure_def)
  then show ?thesis
    using rejected_upload_changes_nothing[OF h, of example_browser None] by simp
qed

end
